theory Spec2Isabelle
  imports Main "HOL-Library.Monad_Syntax" "HOL-Library.AList"
begin

section \<open>Run-time values\<close>

text \<open>
  The values the permission vocabulary handles at run time. An object is the list of its
  own properties in insertion order; property keys are strings. A schema of the external
  validation library (\<^verbatim>\<open>z.ZodSchema\<close>) is opaque here: it is only ever
  stored and handed on, so it is represented by an identity tag.
\<close>

datatype jsval =
    JUndefined
  | JString string
  | JSchema nat
  | JObject "(string \<times> jsval) list"

type_synonym jsobject = "(string \<times> jsval) list"

text \<open>
  Reading a property: an own property gives its value, a missing one gives
  \<^verbatim>\<open>undefined\<close>. This is what each name of the destructuring pattern
  \<^verbatim>\<open>{ name, description, resourceType, paramsSchema }\<close> does.
\<close>

definition get_prop :: "jsobject \<Rightarrow> string \<Rightarrow> jsval" where
  "get_prop obj k = (case map_of obj k of None \<Rightarrow> JUndefined | Some v \<Rightarrow> v)"

definition own_keys :: "jsobject \<Rightarrow> string set" where
  "own_keys obj = set (map fst obj)"

section \<open>createPermissionRuleDefinition\<close>

text \<open>
  \<^verbatim>\<open>
  export const createPermissionRuleDefinition = ({
    name, description, resourceType, paramsSchema,
  }) => ({ name, description, resourceType, paramsSchema });
  \<close>
  The parameter pattern reads four properties of the argument; the body is an object
  literal with four shorthand properties, in this order.
\<close>

definition createPermissionRuleDefinition :: "jsobject \<Rightarrow> jsobject" where
  "createPermissionRuleDefinition arg =
     (let name = get_prop arg ''name'';
          description = get_prop arg ''description'';
          resourceType = get_prop arg ''resourceType'';
          paramsSchema = get_prop arg ''paramsSchema''
      in [(''name'', name),
          (''description'', description),
          (''resourceType'', resourceType),
          (''paramsSchema'', paramsSchema)])"

subsection \<open>The call in a store of objects\<close>

text \<open>
  The pure function above is what the body does to an argument made of data properties.
  The parameter pattern itself is a sequence of property reads on the argument, and a
  property read runs the accessor when the property is one. To say what a call changes and
  when it fails, the call is evaluated in a store. An object is identified by its
  address (its index in the store); a property is a data property or an accessor; the
  code of the accessors is the table \<open>G\<close>: a getter receives the address of the object it
  is read on and the store, and throws or returns a value and the store it leaves behind.
  A reference outside the store does not occur in a running program; reading through it is
  treated like reading a property of \<^verbatim>\<open>undefined\<close>.
\<close>

datatype property = Data jsval | Getter nat

type_synonym heap_object = "(string \<times> property) list"
type_synonym addr = nat
type_synonym store = "heap_object list"

datatype js_error = TypeError | Thrown jsval

type_synonym 'a outcome = "js_error + 'a \<times> store"
type_synonym getters = "nat \<Rightarrow> addr \<Rightarrow> store \<Rightarrow> jsval outcome"

definition deref :: "store \<Rightarrow> addr \<Rightarrow> heap_object option" where
  "deref st a = (if a < length st then Some (st ! a) else None)"

text \<open>An object literal allocates a new object at the next free address.\<close>

definition alloc :: "store \<Rightarrow> heap_object \<Rightarrow> addr \<times> store" where
  "alloc st obj = (length st, st @ [obj])"

definition Get :: "getters \<Rightarrow> addr \<Rightarrow> string \<Rightarrow> store \<Rightarrow> jsval outcome" where
  "Get G a k st =
     (case deref st a of
        None \<Rightarrow> Inl TypeError
      | Some obj \<Rightarrow>
          (case map_of obj k of
             None \<Rightarrow> Inr (JUndefined, st)
           | Some (Data v) \<Rightarrow> Inr (v, st)
           | Some (Getter g) \<Rightarrow> G g a st))"

text \<open>Sequencing: an exception ends the evaluation, a value goes on with the new store.\<close>

definition then_do :: "'a outcome \<Rightarrow> ('a \<Rightarrow> store \<Rightarrow> 'b outcome) \<Rightarrow> 'b outcome" where
  "then_do m f = (case m of Inl e \<Rightarrow> Inl e | Inr (v, st) \<Rightarrow> f v st)"

text \<open>
  What a caller can pass: \<^verbatim>\<open>undefined\<close> or \<^verbatim>\<open>null\<close>, which the
  parameter pattern cannot destructure (a TypeError; the parameter type excludes both), or
  a reference to an object. The four names are read in the order of the pattern, then the
  object literal is allocated.
\<close>

datatype argument = ArgUndefined | ArgNull | ArgRef addr

definition createPermissionRuleDefinition_in_store ::
    "getters \<Rightarrow> argument \<Rightarrow> store \<Rightarrow> addr outcome" where
  "createPermissionRuleDefinition_in_store G arg st =
     (case arg of
        ArgUndefined \<Rightarrow> Inl TypeError
      | ArgNull \<Rightarrow> Inl TypeError
      | ArgRef a \<Rightarrow>
          then_do (Get G a ''name'' st) (\<lambda>name st.
          then_do (Get G a ''description'' st) (\<lambda>description st.
          then_do (Get G a ''resourceType'' st) (\<lambda>resourceType st.
          then_do (Get G a ''paramsSchema'' st) (\<lambda>paramsSchema st.
            Inr (alloc st [(''name'', Data name),
                           (''description'', Data description),
                           (''resourceType'', Data resourceType),
                           (''paramsSchema'', Data paramsSchema)]))))))"

text \<open>
  The data properties of a stored object, and the stored object of a list of data
  properties. An argument is plain when none of the four properties the pattern reads is
  an accessor.
\<close>

definition data_props :: "heap_object \<Rightarrow> jsobject" where
  "data_props obj =
     List.map_filter (\<lambda>(k, p). case p of Data v \<Rightarrow> Some (k, v) | Getter g \<Rightarrow> None) obj"

definition data_object :: "jsobject \<Rightarrow> heap_object" where
  "data_object ps = map (\<lambda>(k, v). (k, Data v)) ps"

definition has_accessor :: "heap_object \<Rightarrow> string \<Rightarrow> bool" where
  "has_accessor obj k = (case map_of obj k of Some (Getter g) \<Rightarrow> True | _ \<Rightarrow> False)"

definition plain_argument :: "heap_object \<Rightarrow> bool" where
  "plain_argument obj =
     (\<not> has_accessor obj ''name'' \<and> \<not> has_accessor obj ''description'' \<and>
      \<not> has_accessor obj ''resourceType'' \<and> \<not> has_accessor obj ''paramsSchema'')"

text \<open>Objects are never deallocated: a getter leaves a store at least as long as it found.\<close>

definition getters_keep_objects :: "getters \<Rightarrow> bool" where
  "getters_keep_objects G =
     (\<forall>g this st v st'. G g this st = Inr (v, st') \<longrightarrow> length st \<le> length st')"

text \<open>
  Two accessors for examples. Getter 0 throws:
  \<^verbatim>\<open>get name(): string { throw 'boom' }\<close>. Getter 1 counts its calls in a
  property of the object it is read on:
  \<^verbatim>\<open>get name(): string { const n = 'n' + this.calls; this.calls += 'x'; return n }\<close>.
\<close>

definition example_getters :: getters where
  "example_getters g this st =
     (if g = 0 then Inl (Thrown (JString ''boom''))
      else
        (case deref st this of
           None \<Rightarrow> Inl TypeError
         | Some obj \<Rightarrow>
             (let calls = (case map_of obj ''calls'' of
                             Some (Data (JString s)) \<Rightarrow> s
                           | _ \<Rightarrow> [])
              in Inr (JString (''n'' @ calls),
                      st[this := AList.update ''calls'' (Data (JString (calls @ ''x''))) obj]))))"

section \<open>Type declarations\<close>

text \<open>
  Most of the module is type declarations. A declared type is represented by a
  descriptor, and \<open>has_type\<close> says which run-time values inhabit it. Object types are
  structural: a member is \<open>Required\<close> or \<open>Optional\<close> (written \<^verbatim>\<open>k?: T\<close>), and
  an object may have more properties than the type declares. Types declared in other
  modules (\<^verbatim>\<open>PolicyDecision\<close>, \<^verbatim>\<open>z.ZodSchema\<close>,
  \<^verbatim>\<open>PermissionCondition\<close>) are \<open>TExt\<close> with their type arguments; which values
  inhabit them is a parameter \<open>ext\<close> of \<open>has_type\<close>.
\<close>

datatype presence = Required | Optional

datatype ts_type =
    TString
  | TUndefined
  | TNever
  | TLit string
  | TUnion "ts_type list"
  | TObject "(string \<times> presence \<times> ts_type) list"
  | TAnd ts_type ts_type
  | TFun "(string \<times> ts_type) list" ts_type
  | TExt string "ts_type list"

type_synonym ext_types = "string \<Rightarrow> ts_type list \<Rightarrow> jsval \<Rightarrow> bool"

text \<open>
  An optional member may be missing or hold \<^verbatim>\<open>undefined\<close>; a required member
  must be an own property. The empty object type \<^verbatim>\<open>{}\<close> is inhabited by every
  value but \<^verbatim>\<open>undefined\<close>. The value universe has no functions, so no value
  inhabits a function type.
\<close>

fun has_type :: "ext_types \<Rightarrow> jsval \<Rightarrow> ts_type \<Rightarrow> bool" where
  "has_type ext v TString = (case v of JString s \<Rightarrow> True | _ \<Rightarrow> False)"
| "has_type ext v TUndefined = (v = JUndefined)"
| "has_type ext v TNever = False"
| "has_type ext v (TLit s) = (v = JString s)"
| "has_type ext v (TUnion ts) = list_ex (has_type ext v) ts"
| "has_type ext v (TObject decls) =
     (case v of
        JObject obj \<Rightarrow>
          list_all (\<lambda>(k, p, t).
            case map_of obj k of
              None \<Rightarrow> p = Optional
            | Some x \<Rightarrow> (p = Optional \<and> x = JUndefined) \<or> has_type ext x t) decls
      | JUndefined \<Rightarrow> False
      | _ \<Rightarrow> decls = [])"
| "has_type ext v (TAnd a b) = (has_type ext v a \<and> has_type ext v b)"
| "has_type ext v (TFun ps r) = False"
| "has_type ext v (TExt n args) = ext n args v"

text \<open>
  The members a type knows: those of an object type, and those of any constituent of an
  intersection or union. An object literal is accepted for a type when it inhabits the
  type and every property it writes is known to the type (the excess property check).
\<close>

fun known_prop :: "ts_type \<Rightarrow> string \<Rightarrow> bool" where
  "known_prop (TObject decls) k = (k \<in> set (map fst decls))"
| "known_prop (TAnd a b) k = (known_prop a k \<or> known_prop b k)"
| "known_prop (TUnion ts) k = list_ex (\<lambda>t. known_prop t k) ts"
| "known_prop _ k = False"

definition literal_accepted :: "ext_types \<Rightarrow> ts_type \<Rightarrow> jsobject \<Rightarrow> bool" where
  "literal_accepted ext T lit =
     (has_type ext (JObject lit) T \<and> list_all (known_prop T) (map fst lit))"

text \<open>\<^verbatim>\<open>T extends string\<close>, the constraint on \<^verbatim>\<open>TResourceType\<close>.\<close>

fun extends_string :: "ts_type \<Rightarrow> bool" where
  "extends_string TString = True"
| "extends_string (TLit s) = True"
| "extends_string TNever = True"
| "extends_string (TUnion ts) = list_all extends_string ts"
| "extends_string (TAnd a b) = (extends_string a \<or> extends_string b)"
| "extends_string _ = False"

subsection \<open>Permissions\<close>

text \<open>
  \<^verbatim>\<open>
  export type PermissionAttributes = {
    action?: 'create' | 'read' | 'update' | 'delete';
  };
  \<close>
\<close>

definition PermissionAttributes :: ts_type where
  "PermissionAttributes =
     TObject [(''action'', Optional,
               TUnion [TLit ''create'', TLit ''read'', TLit ''update'', TLit ''delete''])]"

definition PolicyDecision :: ts_type where
  "PolicyDecision = TExt ''PolicyDecision'' []"

text \<open>
  \<^verbatim>\<open>
  export type PermissionBase<TType extends string, TFields extends object> = {
    name: string;
    attributes: PermissionAttributes;
    defaultDecision?: PolicyDecision;
  } & {
    type: TType;
  } & TFields;
  \<close>
\<close>

definition PermissionBase :: "ts_type \<Rightarrow> ts_type \<Rightarrow> ts_type" where
  "PermissionBase TType TFields =
     TAnd (TAnd (TObject [(''name'', Required, TString),
                          (''attributes'', Required, PermissionAttributes),
                          (''defaultDecision'', Optional, PolicyDecision)])
                (TObject [(''type'', Required, TType)]))
          TFields"

definition BasicPermission :: ts_type where
  "BasicPermission = PermissionBase (TLit ''basic'') (TObject [])"

definition ResourcePermission :: "ts_type \<Rightarrow> ts_type" where
  "ResourcePermission TResourceType =
     PermissionBase (TLit ''resource'') (TObject [(''resourceType'', Required, TResourceType)])"

text \<open>\<^verbatim>\<open>ResourcePermission\<close> without an argument takes the default, \<^verbatim>\<open>string\<close>.\<close>

definition Permission :: ts_type where
  "Permission = TUnion [BasicPermission, ResourcePermission TString]"

definition AuthorizeRequestOptions :: ts_type where
  "AuthorizeRequestOptions = TObject [(''token'', Optional, TString)]"

subsection \<open>Rule definitions and conditions\<close>

definition ZodSchema :: "ts_type \<Rightarrow> ts_type" where
  "ZodSchema TParams = TExt ''z.ZodSchema'' [TParams]"

definition PermissionCondition :: "ts_type \<Rightarrow> ts_type \<Rightarrow> ts_type" where
  "PermissionCondition TResourceType TParams = TExt ''PermissionCondition'' [TResourceType, TParams]"

text \<open>
  \<^verbatim>\<open>
  export type PermissionRuleDefinition<TResourceType extends string, TParams ...> = {
    name: string;
    description: string;
    resourceType: TResourceType;
    paramsSchema?: z.ZodSchema<TParams>;
  };
  \<close>
\<close>

definition PermissionRuleDefinition :: "ts_type \<Rightarrow> ts_type \<Rightarrow> ts_type" where
  "PermissionRuleDefinition TResourceType TParams =
     TObject [(''name'', Required, TString),
              (''description'', Required, TString),
              (''resourceType'', Required, TResourceType),
              (''paramsSchema'', Optional, ZodSchema TParams)]"

text \<open>
  \<^verbatim>\<open>TRule extends PermissionRuleDefinition<infer TResourceType, infer TParams>\<close>:
  the rule type is matched member by member against the declaration. The match binds
  \<^verbatim>\<open>TResourceType\<close> to the type of \<^verbatim>\<open>resourceType\<close> and
  \<^verbatim>\<open>TParams\<close> to the argument of the schema type of \<^verbatim>\<open>paramsSchema\<close>,
  and succeeds when the three required members are required and are strings. Rule types
  are object types that declare \<^verbatim>\<open>paramsSchema\<close>; for anything else the match
  fails here.
\<close>

definition required_member :: "(string \<times> presence \<times> ts_type) list \<Rightarrow> string \<Rightarrow> ts_type option" where
  "required_member decls k =
     (case map_of decls k of Some (Required, t) \<Rightarrow> Some t | _ \<Rightarrow> None)"

fun schema_argument :: "ts_type \<Rightarrow> ts_type option" where
  "schema_argument (TExt z [TParams]) = (if z = ''z.ZodSchema'' then Some TParams else None)"
| "schema_argument _ = None"

fun infer_PermissionRuleDefinition :: "ts_type \<Rightarrow> (ts_type \<times> ts_type) option" where
  "infer_PermissionRuleDefinition (TObject decls) =
     do {
       n \<leftarrow> required_member decls ''name'';
       d \<leftarrow> required_member decls ''description'';
       TResourceType \<leftarrow> required_member decls ''resourceType'';
       s \<leftarrow> map_option snd (map_of decls ''paramsSchema'');
       TParams \<leftarrow> schema_argument s;
       if extends_string n \<and> extends_string d \<and> extends_string TResourceType
       then Some (TResourceType, TParams) else None
     }"
| "infer_PermissionRuleDefinition _ = None"

text \<open>
  \<^verbatim>\<open>
  export type Condition<TRule> = TRule extends PermissionRuleDefinition<
    infer TResourceType, infer TParams>
    ? undefined extends TParams
      ? () => PermissionCondition<TResourceType, TParams>
      : (params: TParams) => PermissionCondition<TResourceType, TParams>
    : never;
  \<close>
  \<^verbatim>\<open>undefined extends TParams\<close> holds when the value \<^verbatim>\<open>undefined\<close>
  inhabits \<^verbatim>\<open>TParams\<close>.
\<close>

definition Condition :: "ext_types \<Rightarrow> ts_type \<Rightarrow> ts_type" where
  "Condition ext TRule =
     (case infer_PermissionRuleDefinition TRule of
        Some (TResourceType, TParams) \<Rightarrow>
          if has_type ext JUndefined TParams
          then TFun [] (PermissionCondition TResourceType TParams)
          else TFun [(''params'', TParams)] (PermissionCondition TResourceType TParams)
      | None \<Rightarrow> TNever)"

text \<open>
  One interpretation of the external types, for concrete examples: every schema inhabits
  \<^verbatim>\<open>z.ZodSchema\<close>, and the other external types are left empty.
\<close>

definition schemas_only :: ext_types where
  "schemas_only n args v = (n = ''z.ZodSchema'' \<and> (case v of JSchema i \<Rightarrow> True | _ \<Rightarrow> False))"

section \<open>componentsApiRef\<close>

text \<open>
  \<^verbatim>\<open>
  export const componentsApiRef = createApiRef<ComponentsApi>({
    id: 'core.components',
  });
  \<close>
  \<^verbatim>\<open>createApiRef\<close> is imported from another module; it is a parameter here.
\<close>

definition componentsApiRef :: "(jsobject \<Rightarrow> 'ref) \<Rightarrow> 'ref" where
  "componentsApiRef createApiRef = createApiRef [(''id'', JString ''core.components'')]"

section \<open>PermissionAuthorizer\<close>

text \<open>
  \<^verbatim>\<open>
  export interface PermissionAuthorizer {
    authorize(requests: EvaluatePermissionRequest[], options?: AuthorizeRequestOptions):
      Promise<EvaluatePermissionResponse[]>;
  }
  \<close>
  The request and response types come from another module and are type variables.
\<close>

datatype ('e, 'a) promise = Resolved 'a | Rejected 'e

text \<open>
  Modelled from the spec: an implementation of \<^verbatim>\<open>PermissionAuthorizer.authorize\<close>;
  the sources declare the interface only. Following the specification, the requests are
  evaluated against the backend in order, the promise resolves to the sequence of the
  decisions, and a backend failure rejects the whole call (no partial result). The
  options (absent: \<open>JUndefined\<close>) are handed to the backend with every request.
\<close>

fun authorize :: "(jsval \<Rightarrow> 'req \<Rightarrow> 'e + 'resp) \<Rightarrow> 'req list \<Rightarrow> jsval \<Rightarrow> ('e, 'resp list) promise" where
  "authorize backend [] options = Resolved []"
| "authorize backend (r # requests) options =
     (case backend options r of
        Inl e \<Rightarrow> Rejected e
      | Inr decision \<Rightarrow>
          (case authorize backend requests options of
             Rejected e \<Rightarrow> Rejected e
           | Resolved decisions \<Rightarrow> Resolved (decision # decisions)))"

text \<open>
  A stub backend for examples: it answers every request with a decision that carries the
  request's identity.
\<close>

definition stub_backend :: "jsval \<Rightarrow> string \<Rightarrow> unit + string" where
  "stub_backend options request = Inr (''decision for '' @ request)"

section \<open>Properties of createPermissionRuleDefinition\<close>

lemma get_prop_created:
  "get_prop (createPermissionRuleDefinition arg) ''name'' = get_prop arg ''name''"
  "get_prop (createPermissionRuleDefinition arg) ''description'' = get_prop arg ''description''"
  "get_prop (createPermissionRuleDefinition arg) ''resourceType'' = get_prop arg ''resourceType''"
  "get_prop (createPermissionRuleDefinition arg) ''paramsSchema'' = get_prop arg ''paramsSchema''"
  by (simp_all add: createPermissionRuleDefinition_def get_prop_def)

lemma created_has_type:
  assumes "has_type ext (JObject arg) (PermissionRuleDefinition R P)"
  shows "has_type ext (JObject (createPermissionRuleDefinition arg)) (PermissionRuleDefinition R P)"
  using assms
  by (auto simp: PermissionRuleDefinition_def createPermissionRuleDefinition_def get_prop_def
      split: option.splits)

lemma created_keys:
  "map fst (createPermissionRuleDefinition arg) =
     [''name'', ''description'', ''resourceType'', ''paramsSchema'']"
  by (simp add: createPermissionRuleDefinition_def)

lemma created_without_schema:
  "createPermissionRuleDefinition
     [(''name'', n), (''description'', d), (''resourceType'', r)] =
   [(''name'', n), (''description'', d), (''resourceType'', r), (''paramsSchema'', JUndefined)]"
  by (simp add: createPermissionRuleDefinition_def get_prop_def)

text \<open>
  C1. For every argument, the object returned by createPermissionRuleDefinition has the
  argument's values of name, description, resourceType and paramsSchema, and when the
  argument inhabits the parameter type the result is a PermissionRuleDefinition of the same
  type arguments. Called with name 'n', description 'd', resourceType 'catalog-entity' and
  no paramsSchema, it returns the object with these three values and paramsSchema
  undefined.
\<close>

theorem createPermissionRuleDefinition_fields:
  "(has_type ext (JObject arg) (PermissionRuleDefinition R P) \<longrightarrow>
      has_type ext (JObject (createPermissionRuleDefinition arg)) (PermissionRuleDefinition R P))
   \<and> get_prop (createPermissionRuleDefinition arg) ''name'' = get_prop arg ''name''
   \<and> get_prop (createPermissionRuleDefinition arg) ''description'' = get_prop arg ''description''
   \<and> get_prop (createPermissionRuleDefinition arg) ''resourceType'' = get_prop arg ''resourceType''
   \<and> get_prop (createPermissionRuleDefinition arg) ''paramsSchema'' = get_prop arg ''paramsSchema''
   \<and> createPermissionRuleDefinition
        [(''name'', JString ''n''), (''description'', JString ''d''),
         (''resourceType'', JString ''catalog-entity'')] =
      [(''name'', JString ''n''), (''description'', JString ''d''),
       (''resourceType'', JString ''catalog-entity''), (''paramsSchema'', JUndefined)]"
  using created_has_type [of ext arg R P] get_prop_created [of arg]
    created_without_schema [of "JString ''n''" "JString ''d''" "JString ''catalog-entity''"]
  by blast

theorem createPermissionRuleDefinition_fields_witness:
  "has_type schemas_only
     (JObject [(''name'', JString ''isEntityOwner''), (''description'', JString ''d''),
               (''resourceType'', JString ''catalog-entity''), (''paramsSchema'', JSchema 7)])
     (PermissionRuleDefinition (TLit ''catalog-entity'') TUndefined)
   \<and> has_type schemas_only
     (JObject (createPermissionRuleDefinition
        [(''name'', JString ''isEntityOwner''), (''description'', JString ''d''),
         (''resourceType'', JString ''catalog-entity''), (''paramsSchema'', JSchema 7)]))
     (PermissionRuleDefinition (TLit ''catalog-entity'') TUndefined)"
proof -
  let ?arg = "[(''name'', JString ''isEntityOwner''), (''description'', JString ''d''),
               (''resourceType'', JString ''catalog-entity''), (''paramsSchema'', JSchema 7)]"
  have h: "has_type schemas_only (JObject ?arg)
             (PermissionRuleDefinition (TLit ''catalog-entity'') TUndefined)"
    by (simp add: PermissionRuleDefinition_def ZodSchema_def schemas_only_def)
  from createPermissionRuleDefinition_fields
         [of schemas_only ?arg "TLit ''catalog-entity''" TUndefined] h
  show ?thesis by blast
qed

text \<open>
  C8. createPermissionRuleDefinition is idempotent up to equality of objects: applied to
  its own result it returns an object equal to that result.
\<close>

theorem createPermissionRuleDefinition_idempotent:
  "createPermissionRuleDefinition (createPermissionRuleDefinition x) =
   createPermissionRuleDefinition x"
  by (simp add: createPermissionRuleDefinition_def get_prop_def)

text \<open>
  C9. The object returned by createPermissionRuleDefinition has the four keys name,
  description, resourceType and paramsSchema, once each, and no other: a further property
  of the argument is not copied.
\<close>

theorem createPermissionRuleDefinition_only_four_keys:
  "own_keys (createPermissionRuleDefinition arg) =
     {''name'', ''description'', ''resourceType'', ''paramsSchema''}
   \<and> map fst (createPermissionRuleDefinition arg) =
     [''name'', ''description'', ''resourceType'', ''paramsSchema'']
   \<and> createPermissionRuleDefinition
        [(''name'', JString ''n''), (''owner'', JString ''team-a''),
         (''description'', JString ''d''), (''resourceType'', JString ''catalog-entity'')] =
      createPermissionRuleDefinition
        [(''name'', JString ''n''), (''description'', JString ''d''),
         (''resourceType'', JString ''catalog-entity'')]"
  by (simp add: own_keys_def created_keys)
     (simp add: createPermissionRuleDefinition_def get_prop_def)

subsection \<open>The call in a store\<close>

lemma deref_append: "deref st b = Some obj \<Longrightarrow> deref (st @ [x]) b = Some obj"
  by (auto simp: deref_def nth_append split: if_splits)

lemma deref_new: "deref (st @ [x]) (length st) = Some x"
  by (simp add: deref_def)

lemma deref_beyond: "length st \<le> r \<Longrightarrow> deref st r = None"
  by (simp add: deref_def)

lemma deref_allocated: "deref st a = Some obj \<Longrightarrow> a < length st"
  by (simp add: deref_def split: if_splits)

lemma map_of_data_props:
  "map_of obj k = None \<Longrightarrow> map_of (data_props obj) k = None"
  "map_of obj k = Some (Data v) \<Longrightarrow> map_of (data_props obj) k = Some v"
  by (induction obj; auto simp: data_props_def split: property.splits if_splits)+

lemma Get_data:
  assumes "deref st a = Some obj" and "\<not> has_accessor obj k"
  shows "Get G a k st = Inr (get_prop (data_props obj) k, st)"
proof (cases "map_of obj k")
  case None
  with assms show ?thesis
    by (simp add: Get_def get_prop_def map_of_data_props(1))
next
  case (Some p)
  with assms obtain v where "p = Data v"
    by (cases p) (auto simp: has_accessor_def)
  with Some assms show ?thesis
    by (simp add: Get_def get_prop_def map_of_data_props(2))
qed

text \<open>On a plain argument the call is the pure function, and its effect one allocation.\<close>

lemma in_store_plain:
  assumes "deref st a = Some obj" and "plain_argument obj"
  shows "createPermissionRuleDefinition_in_store G (ArgRef a) st =
           Inr (length st,
                st @ [data_object (createPermissionRuleDefinition (data_props obj))])"
  using assms
  by (simp add: createPermissionRuleDefinition_in_store_def plain_argument_def Get_data
      then_do_def alloc_def data_object_def createPermissionRuleDefinition_def)

lemma in_store_nullish:
  "createPermissionRuleDefinition_in_store G ArgUndefined st = Inl TypeError"
  "createPermissionRuleDefinition_in_store G ArgNull st = Inl TypeError"
  by (simp_all add: createPermissionRuleDefinition_in_store_def)

lemma then_do_Inr:
  "then_do m f = Inr (r, st') \<longleftrightarrow> (\<exists>v st1. m = Inr (v, st1) \<and> f v st1 = Inr (r, st'))"
  by (auto simp: then_do_def split: sum.splits)

lemma Get_keeps_objects:
  assumes "getters_keep_objects G" and "Get G a k st = Inr (v, st')"
  shows "length st \<le> length st'"
  using assms
  by (auto simp: Get_def getters_keep_objects_def split: option.splits property.splits)

lemma in_store_result:
  assumes keep: "getters_keep_objects G"
    and call: "createPermissionRuleDefinition_in_store G (ArgRef a) st = Inr (r, st')"
  shows "\<exists>st4 res. length st \<le> length st4 \<and> r = length st4 \<and> st' = st4 @ [res]"
proof -
  from call obtain v1 st1 v2 st2 v3 st3 v4 st4 where
    g: "Get G a ''name'' st = Inr (v1, st1)"
       "Get G a ''description'' st1 = Inr (v2, st2)"
       "Get G a ''resourceType'' st2 = Inr (v3, st3)"
       "Get G a ''paramsSchema'' st3 = Inr (v4, st4)"
    and r: "Inr (alloc st4 [(''name'', Data v1), (''description'', Data v2),
                            (''resourceType'', Data v3), (''paramsSchema'', Data v4)]) =
            (Inr (r, st') :: addr outcome)"
    unfolding createPermissionRuleDefinition_in_store_def argument.case then_do_Inr
    by blast
  from g have "length st \<le> length st4"
    using Get_keeps_objects [OF keep] by (meson order_trans)
  with r show ?thesis
    by (auto simp: alloc_def)
qed

lemma example_getters_keep_objects: "getters_keep_objects example_getters"
  by (auto simp: getters_keep_objects_def example_getters_def Let_def
      split: if_splits option.splits)

text \<open>
  C5, as stated, fails at an argument that fits the parameter type and has an accessor.
  With \<^verbatim>\<open>name\<close> the throwing getter the call throws; with
  \<^verbatim>\<open>name\<close> the counting getter the call changes its argument, and a second
  call with the same argument returns an object with another name.
\<close>

theorem createPermissionRuleDefinition_runs_accessors:
  "createPermissionRuleDefinition_in_store example_getters (ArgRef 0)
     [[(''name'', Getter 0), (''description'', Data (JString ''d'')),
       (''resourceType'', Data (JString ''catalog-entity''))]] =
   Inl (Thrown (JString ''boom''))
   \<and> createPermissionRuleDefinition_in_store example_getters (ArgRef 0)
     [[(''calls'', Data (JString [])), (''name'', Getter 1),
       (''description'', Data (JString ''d'')),
       (''resourceType'', Data (JString ''catalog-entity''))]] =
   Inr (1,
     [[(''calls'', Data (JString ''x'')), (''name'', Getter 1),
       (''description'', Data (JString ''d'')),
       (''resourceType'', Data (JString ''catalog-entity''))],
      [(''name'', Data (JString ''n'')), (''description'', Data (JString ''d'')),
       (''resourceType'', Data (JString ''catalog-entity'')),
       (''paramsSchema'', Data JUndefined)]])
   \<and> createPermissionRuleDefinition_in_store example_getters (ArgRef 0)
     [[(''calls'', Data (JString ''x'')), (''name'', Getter 1),
       (''description'', Data (JString ''d'')),
       (''resourceType'', Data (JString ''catalog-entity''))],
      [(''name'', Data (JString ''n'')), (''description'', Data (JString ''d'')),
       (''resourceType'', Data (JString ''catalog-entity'')),
       (''paramsSchema'', Data JUndefined)]] =
   Inr (2,
     [[(''calls'', Data (JString ''xx'')), (''name'', Getter 1),
       (''description'', Data (JString ''d'')),
       (''resourceType'', Data (JString ''catalog-entity''))],
      [(''name'', Data (JString ''n'')), (''description'', Data (JString ''d'')),
       (''resourceType'', Data (JString ''catalog-entity'')),
       (''paramsSchema'', Data JUndefined)],
      [(''name'', Data (JString ''nx'')), (''description'', Data (JString ''d'')),
       (''resourceType'', Data (JString ''catalog-entity'')),
       (''paramsSchema'', Data JUndefined)]])"
  by (simp add: createPermissionRuleDefinition_in_store_def then_do_def Get_def deref_def
      alloc_def example_getters_def Let_def)

text \<open>
  C5, amended. For every argument object whose name, description, resourceType and
  paramsSchema are data properties or absent (no accessor among them),
  createPermissionRuleDefinition checks nothing, changes nothing and does not fail. The
  call returns, whatever the values of the properties; its whole effect on the store is
  the allocation of the returned object, so every object that existed before is unchanged;
  the returned object depends on the argument's data properties only, so a call in any
  other store with an argument of equal data properties returns an equal object; and the
  value of paramsSchema is stored as it is.
\<close>

theorem createPermissionRuleDefinition_pure_on_plain:
  assumes "deref st a = Some obj" and "plain_argument obj"
  shows "\<exists>r st'. createPermissionRuleDefinition_in_store G (ArgRef a) st = Inr (r, st')
           \<and> st' = st @ [data_object (createPermissionRuleDefinition (data_props obj))]
           \<and> (\<forall>b other. deref st b = Some other \<longrightarrow> deref st' b = Some other)
           \<and> deref st' r = Some (data_object (createPermissionRuleDefinition (data_props obj)))
           \<and> (\<forall>G2 st2 a2 obj2 r2 st2'.
                 deref st2 a2 = Some obj2 \<and> plain_argument obj2 \<and>
                 data_props obj2 = data_props obj \<and>
                 createPermissionRuleDefinition_in_store G2 (ArgRef a2) st2 = Inr (r2, st2') \<longrightarrow>
                 deref st2' r2 = deref st' r)
           \<and> get_prop (createPermissionRuleDefinition (data_props obj)) ''paramsSchema'' =
               get_prop (data_props obj) ''paramsSchema''"
proof -
  let ?res = "data_object (createPermissionRuleDefinition (data_props obj))"
  let ?st' = "st @ [?res]"
  have call: "createPermissionRuleDefinition_in_store G (ArgRef a) st = Inr (length st, ?st')"
    using assms by (rule in_store_plain)
  have frame: "\<forall>b other. deref st b = Some other \<longrightarrow> deref ?st' b = Some other"
    by (simp add: deref_append)
  have new: "deref ?st' (length st) = Some ?res"
    by (rule deref_new)
  have det: "\<forall>G2 st2 a2 obj2 r2 st2'.
               deref st2 a2 = Some obj2 \<and> plain_argument obj2 \<and>
               data_props obj2 = data_props obj \<and>
               createPermissionRuleDefinition_in_store G2 (ArgRef a2) st2 = Inr (r2, st2') \<longrightarrow>
               deref st2' r2 = deref ?st' (length st)"
    by (auto simp: in_store_plain deref_new)
  from call frame new det get_prop_created(4) [of "data_props obj"]
  show ?thesis by blast
qed

theorem createPermissionRuleDefinition_pure_on_plain_witness:
  "deref [[(''name'', Data (JString ''n'')),
           (''paramsSchema'', Data (JString ''not a schema'')),
           (''owner'', Getter 0)]] 0 =
     Some [(''name'', Data (JString ''n'')),
           (''paramsSchema'', Data (JString ''not a schema'')),
           (''owner'', Getter 0)]
   \<and> plain_argument [(''name'', Data (JString ''n'')),
                     (''paramsSchema'', Data (JString ''not a schema'')),
                     (''owner'', Getter 0)]
   \<and> (\<exists>r st'. createPermissionRuleDefinition_in_store example_getters (ArgRef 0)
                 [[(''name'', Data (JString ''n'')),
                   (''paramsSchema'', Data (JString ''not a schema'')),
                   (''owner'', Getter 0)]] = Inr (r, st')
         \<and> st' = [[(''name'', Data (JString ''n'')),
                    (''paramsSchema'', Data (JString ''not a schema'')),
                    (''owner'', Getter 0)],
                   [(''name'', Data (JString ''n'')), (''description'', Data JUndefined),
                    (''resourceType'', Data JUndefined),
                    (''paramsSchema'', Data (JString ''not a schema''))]]
         \<and> deref st' r =
             Some [(''name'', Data (JString ''n'')), (''description'', Data JUndefined),
                   (''resourceType'', Data JUndefined),
                   (''paramsSchema'', Data (JString ''not a schema''))])"
proof -
  let ?obj = "[(''name'', Data (JString ''n'')),
               (''paramsSchema'', Data (JString ''not a schema'')),
               (''owner'', Getter 0)]"
  have h: "deref [?obj] 0 = Some ?obj"
    by (simp add: deref_def)
  have p: "plain_argument ?obj"
    by (simp add: plain_argument_def has_accessor_def)
  have r: "data_object (createPermissionRuleDefinition (data_props ?obj)) =
             [(''name'', Data (JString ''n'')), (''description'', Data JUndefined),
              (''resourceType'', Data JUndefined),
              (''paramsSchema'', Data (JString ''not a schema''))]"
    by (simp add: createPermissionRuleDefinition_def get_prop_def data_props_def
        data_object_def)
  from createPermissionRuleDefinition_pure_on_plain [OF h p, of example_getters]
  obtain r' st' where
    "createPermissionRuleDefinition_in_store example_getters (ArgRef 0) [?obj] = Inr (r', st')"
    "st' = [?obj] @ [data_object (createPermissionRuleDefinition (data_props ?obj))]"
    "deref st' r' = Some (data_object (createPermissionRuleDefinition (data_props ?obj)))"
    by blast
  with h p r show ?thesis by simp
qed

text \<open>
  C10, as stated, fails at an argument with an accessor: reading
  \<^verbatim>\<open>name\<close> runs the counting getter, which assigns to a property of the
  argument, so after the call the argument is not the object it was.
\<close>

theorem createPermissionRuleDefinition_accessor_changes_argument:
  "deref [[(''calls'', Data (JString [])), (''name'', Getter 1),
           (''description'', Data (JString ''d'')),
           (''resourceType'', Data (JString ''catalog-entity''))]] 0 =
     Some [(''calls'', Data (JString [])), (''name'', Getter 1),
           (''description'', Data (JString ''d'')),
           (''resourceType'', Data (JString ''catalog-entity''))]
   \<and> createPermissionRuleDefinition_in_store example_getters (ArgRef 0)
       [[(''calls'', Data (JString [])), (''name'', Getter 1),
         (''description'', Data (JString ''d'')),
         (''resourceType'', Data (JString ''catalog-entity''))]] =
     Inr (1,
       [[(''calls'', Data (JString ''x'')), (''name'', Getter 1),
         (''description'', Data (JString ''d'')),
         (''resourceType'', Data (JString ''catalog-entity''))],
        [(''name'', Data (JString ''n'')), (''description'', Data (JString ''d'')),
         (''resourceType'', Data (JString ''catalog-entity'')),
         (''paramsSchema'', Data JUndefined)]])
   \<and> deref
       [[(''calls'', Data (JString ''x'')), (''name'', Getter 1),
         (''description'', Data (JString ''d'')),
         (''resourceType'', Data (JString ''catalog-entity''))],
        [(''name'', Data (JString ''n'')), (''description'', Data (JString ''d'')),
         (''resourceType'', Data (JString ''catalog-entity'')),
         (''paramsSchema'', Data JUndefined)]] 0 \<noteq>
     Some [(''calls'', Data (JString [])), (''name'', Getter 1),
           (''description'', Data (JString ''d'')),
           (''resourceType'', Data (JString ''catalog-entity''))]"
  by (simp add: createPermissionRuleDefinition_in_store_def then_do_def Get_def deref_def
      alloc_def example_getters_def Let_def)

text \<open>
  C10, amended. createPermissionRuleDefinition leaves an argument unchanged when none of
  name, description, resourceType and paramsSchema is an accessor of it: after the call
  the argument object has the properties it had before. For every argument object, with
  accessors or without (accessors do not deallocate objects), the object a call returns is
  a new object, at an address that was free before the call and differs from the
  argument's.
\<close>

theorem createPermissionRuleDefinition_argument_unchanged:
  assumes "deref st a = Some obj"
  shows "(plain_argument obj \<longrightarrow>
            (\<exists>r st'. createPermissionRuleDefinition_in_store G (ArgRef a) st = Inr (r, st')
               \<and> deref st' a = Some obj
               \<and> r \<noteq> a \<and> deref st r = None \<and> (\<exists>res. deref st' r = Some res)))
       \<and> (getters_keep_objects G \<longrightarrow>
            (\<forall>r st'. createPermissionRuleDefinition_in_store G (ArgRef a) st = Inr (r, st') \<longrightarrow>
               r \<noteq> a \<and> deref st r = None \<and> (\<exists>res. deref st' r = Some res)))"
proof -
  have lt: "a < length st"
    using assms by (rule deref_allocated)
  have plain: "\<exists>r st'. createPermissionRuleDefinition_in_store G (ArgRef a) st = Inr (r, st')
          \<and> deref st' a = Some obj
          \<and> r \<noteq> a \<and> deref st r = None \<and> (\<exists>res. deref st' r = Some res)"
    if p: "plain_argument obj"
  proof -
    let ?st' = "st @ [data_object (createPermissionRuleDefinition (data_props obj))]"
    have "createPermissionRuleDefinition_in_store G (ArgRef a) st = Inr (length st, ?st')"
      using assms p by (rule in_store_plain)
    moreover have "deref ?st' a = Some obj"
      using assms by (rule deref_append)
    moreover have "length st \<noteq> a"
      using lt by simp
    moreover have "deref st (length st) = None"
      by (simp add: deref_beyond)
    moreover have "\<exists>res. deref ?st' (length st) = Some res"
      by (simp add: deref_new)
    ultimately show ?thesis by blast
  qed
  have fresh: "r \<noteq> a \<and> deref st r = None \<and> (\<exists>res. deref st' r = Some res)"
    if keep: "getters_keep_objects G"
      and call: "createPermissionRuleDefinition_in_store G (ArgRef a) st = Inr (r, st')"
    for r st'
  proof -
    from in_store_result [OF keep call] obtain st4 res where
      r: "length st \<le> length st4" "r = length st4" "st' = st4 @ [res]"
      by blast
    with lt show ?thesis
      by (auto simp: deref_new deref_beyond)
  qed
  from plain fresh show ?thesis by blast
qed

theorem createPermissionRuleDefinition_argument_unchanged_witness:
  "deref [[(''name'', Data (JString ''n'')), (''description'', Data (JString ''d'')),
           (''resourceType'', Data (JString ''catalog-entity''))]] 0 =
     Some [(''name'', Data (JString ''n'')), (''description'', Data (JString ''d'')),
           (''resourceType'', Data (JString ''catalog-entity''))]
   \<and> plain_argument [(''name'', Data (JString ''n'')), (''description'', Data (JString ''d'')),
                     (''resourceType'', Data (JString ''catalog-entity''))]
   \<and> (\<exists>r st'. createPermissionRuleDefinition_in_store example_getters (ArgRef 0)
                 [[(''name'', Data (JString ''n'')), (''description'', Data (JString ''d'')),
                   (''resourceType'', Data (JString ''catalog-entity''))]] = Inr (r, st')
         \<and> deref st' 0 =
             Some [(''name'', Data (JString ''n'')), (''description'', Data (JString ''d'')),
                   (''resourceType'', Data (JString ''catalog-entity''))]
         \<and> r \<noteq> 0
         \<and> (\<exists>res. deref st' r = Some res))
   \<and> getters_keep_objects example_getters
   \<and> createPermissionRuleDefinition_in_store example_getters (ArgRef 0)
       [[(''calls'', Data (JString [])), (''name'', Getter 1),
         (''description'', Data (JString ''d'')),
         (''resourceType'', Data (JString ''catalog-entity''))]] =
     Inr (1,
       [[(''calls'', Data (JString ''x'')), (''name'', Getter 1),
         (''description'', Data (JString ''d'')),
         (''resourceType'', Data (JString ''catalog-entity''))],
        [(''name'', Data (JString ''n'')), (''description'', Data (JString ''d'')),
         (''resourceType'', Data (JString ''catalog-entity'')),
         (''paramsSchema'', Data JUndefined)]])
   \<and> (1::nat) \<noteq> 0
   \<and> deref [[(''calls'', Data (JString [])), (''name'', Getter 1),
             (''description'', Data (JString ''d'')),
             (''resourceType'', Data (JString ''catalog-entity''))]] 1 = None"
proof -
  let ?obj = "[(''name'', Data (JString ''n'')), (''description'', Data (JString ''d'')),
               (''resourceType'', Data (JString ''catalog-entity''))]"
  let ?acc = "[(''calls'', Data (JString [])), (''name'', Getter 1),
               (''description'', Data (JString ''d'')),
               (''resourceType'', Data (JString ''catalog-entity''))]"
  have h: "deref [?obj] 0 = Some ?obj"
    by (simp add: deref_def)
  have p: "plain_argument ?obj"
    by (simp add: plain_argument_def has_accessor_def)
  have h2: "deref [?acc] 0 = Some ?acc"
    by (simp add: deref_def)
  have c: "createPermissionRuleDefinition_in_store example_getters (ArgRef 0) [?acc] =
     Inr (1,
       [[(''calls'', Data (JString ''x'')), (''name'', Getter 1),
         (''description'', Data (JString ''d'')),
         (''resourceType'', Data (JString ''catalog-entity''))],
        [(''name'', Data (JString ''n'')), (''description'', Data (JString ''d'')),
         (''resourceType'', Data (JString ''catalog-entity'')),
         (''paramsSchema'', Data JUndefined)]])"
    by (simp add: createPermissionRuleDefinition_in_store_def then_do_def Get_def deref_def
        alloc_def example_getters_def Let_def)
  from createPermissionRuleDefinition_argument_unchanged [OF h, of example_getters]
    createPermissionRuleDefinition_argument_unchanged [OF h2, of example_getters]
    h p c example_getters_keep_objects
  show ?thesis by auto
qed

section \<open>Properties of the type declarations\<close>

lemma ResourcePermission_values:
  "has_type ext r (ResourcePermission X) \<Longrightarrow>
   \<exists>obj. r = JObject obj \<and> get_prop obj ''type'' = JString ''resource'' \<and>
      ''resourceType'' \<in> own_keys obj \<and> has_type ext (get_prop obj ''resourceType'') X"
  by (cases r)
     (auto simp: ResourcePermission_def PermissionBase_def get_prop_def own_keys_def
       split: option.splits dest: map_of_SomeD intro: rev_image_eqI)

lemma BasicPermission_values:
  "has_type ext b BasicPermission \<Longrightarrow>
   \<exists>obj. b = JObject obj \<and> get_prop obj ''type'' = JString ''basic''"
  by (cases b)
     (auto simp: BasicPermission_def PermissionBase_def get_prop_def split: option.splits)

lemma BasicPermission_unknown_resourceType: "\<not> known_prop BasicPermission ''resourceType''"
  by (simp add: BasicPermission_def PermissionBase_def)

lemma BasicPermission_literal:
  "''resourceType'' \<in> own_keys lit \<Longrightarrow> \<not> literal_accepted ext BasicPermission lit"
  using BasicPermission_unknown_resourceType
  by (force simp: literal_accepted_def own_keys_def list_all_iff)

text \<open>
  C3, as stated, fails for values: object types are structural, so an object with name,
  attributes, type 'basic' and, in addition, a resourceType property inhabits
  BasicPermission. Only an object literal is checked for excess properties.
\<close>

theorem BasicPermission_may_carry_resourceType:
  "has_type schemas_only
     (JObject [(''name'', JString ''catalog.entity.read''),
               (''attributes'', JObject [(''action'', JString ''read'')]),
               (''type'', JString ''basic''),
               (''resourceType'', JString ''catalog-entity'')])
     BasicPermission
   \<and> ''resourceType'' \<in>
       own_keys [(''name'', JString ''catalog.entity.read''),
                 (''attributes'', JObject [(''action'', JString ''read'')]),
                 (''type'', JString ''basic''),
                 (''resourceType'', JString ''catalog-entity'')]"
  by (simp add: BasicPermission_def PermissionBase_def PermissionAttributes_def own_keys_def)

text \<open>
  C3, amended. Every value r of type ResourcePermission<X> is an object whose type is
  'resource' and whose resourceType property is present and of type X. Every value b of
  type BasicPermission is an object whose type is 'basic'. The BasicPermission type
  declares no resourceType member, and an object literal that contains resourceType is
  not accepted as a BasicPermission.
\<close>

theorem Permission_discriminator:
  "(has_type ext r (ResourcePermission X) \<longrightarrow>
      (\<exists>obj. r = JObject obj \<and> get_prop obj ''type'' = JString ''resource'' \<and>
         ''resourceType'' \<in> own_keys obj \<and> has_type ext (get_prop obj ''resourceType'') X))
   \<and> (has_type ext b BasicPermission \<longrightarrow>
      (\<exists>obj. b = JObject obj \<and> get_prop obj ''type'' = JString ''basic''))
   \<and> \<not> known_prop BasicPermission ''resourceType''
   \<and> (''resourceType'' \<in> own_keys lit \<longrightarrow> \<not> literal_accepted ext BasicPermission lit)"
  using ResourcePermission_values [of ext r X] BasicPermission_values [of ext b]
    BasicPermission_unknown_resourceType BasicPermission_literal [of lit ext]
  by blast

theorem Permission_discriminator_witness:
  "has_type schemas_only
     (JObject [(''name'', JString ''catalog.entity.read''),
               (''attributes'', JObject [(''action'', JString ''read'')]),
               (''type'', JString ''resource''),
               (''resourceType'', JString ''catalog-entity'')])
     (ResourcePermission (TLit ''catalog-entity''))
   \<and> get_prop [(''name'', JString ''catalog.entity.read''),
               (''attributes'', JObject [(''action'', JString ''read'')]),
               (''type'', JString ''resource''),
               (''resourceType'', JString ''catalog-entity'')] ''type'' = JString ''resource''
   \<and> has_type schemas_only
       (get_prop [(''name'', JString ''catalog.entity.read''),
               (''attributes'', JObject [(''action'', JString ''read'')]),
               (''type'', JString ''resource''),
               (''resourceType'', JString ''catalog-entity'')] ''resourceType'')
       (TLit ''catalog-entity'')
   \<and> has_type schemas_only
       (JObject [(''name'', JString ''catalog.entity.create''),
                 (''attributes'', JObject [(''action'', JString ''create'')]),
                 (''type'', JString ''basic'')])
       BasicPermission
   \<and> get_prop [(''name'', JString ''catalog.entity.create''),
               (''attributes'', JObject [(''action'', JString ''create'')]),
               (''type'', JString ''basic'')] ''type'' = JString ''basic''
   \<and> literal_accepted schemas_only BasicPermission
        [(''name'', JString ''catalog.entity.create''),
         (''attributes'', JObject [(''action'', JString ''create'')]),
         (''type'', JString ''basic'')]
   \<and> ''resourceType'' \<in>
       own_keys [(''name'', JString ''catalog.entity.create''),
                 (''attributes'', JObject [(''action'', JString ''create'')]),
                 (''type'', JString ''basic''),
                 (''resourceType'', JString ''catalog-entity'')]
   \<and> \<not> literal_accepted schemas_only BasicPermission
        [(''name'', JString ''catalog.entity.create''),
         (''attributes'', JObject [(''action'', JString ''create'')]),
         (''type'', JString ''basic''),
         (''resourceType'', JString ''catalog-entity'')]"
proof -
  let ?r = "[(''name'', JString ''catalog.entity.read''),
             (''attributes'', JObject [(''action'', JString ''read'')]),
             (''type'', JString ''resource''),
             (''resourceType'', JString ''catalog-entity'')]"
  let ?b = "[(''name'', JString ''catalog.entity.create''),
             (''attributes'', JObject [(''action'', JString ''create'')]),
             (''type'', JString ''basic'')]"
  let ?lit = "?b @ [(''resourceType'', JString ''catalog-entity'')]"
  have hr: "has_type schemas_only (JObject ?r) (ResourcePermission (TLit ''catalog-entity''))"
    by (simp add: ResourcePermission_def PermissionBase_def PermissionAttributes_def)
  have hb: "has_type schemas_only (JObject ?b) BasicPermission"
    by (simp add: BasicPermission_def PermissionBase_def PermissionAttributes_def)
  have hl: "''resourceType'' \<in> own_keys ?lit"
    by (simp add: own_keys_def)
  have ok: "literal_accepted schemas_only BasicPermission ?b"
    by (simp add: literal_accepted_def BasicPermission_def PermissionBase_def
        PermissionAttributes_def)
  from Permission_discriminator
         [of schemas_only "JObject ?r" "TLit ''catalog-entity''" "JObject ?b" ?lit]
       hr hb hl ok
  show ?thesis by auto
qed

text \<open>
  C7. A value has type PermissionAttributes exactly when it is an object whose action
  is missing or undefined, or is one of the four strings 'create', 'read', 'update',
  'delete'. No other value of action is legal.
\<close>

theorem PermissionAttributes_action:
  "has_type ext v PermissionAttributes \<longleftrightarrow>
   (\<exists>obj. v = JObject obj \<and> get_prop obj ''action'' \<in>
      {JUndefined, JString ''create'', JString ''read'', JString ''update'', JString ''delete''})"
  by (cases v) (auto simp: PermissionAttributes_def get_prop_def split: option.splits)

theorem PermissionAttributes_action_witness:
  "has_type schemas_only (JObject [(''action'', JString ''read'')]) PermissionAttributes
   \<and> has_type schemas_only (JObject []) PermissionAttributes
   \<and> \<not> has_type schemas_only (JObject [(''action'', JString ''execute'')]) PermissionAttributes
   \<and> \<not> has_type schemas_only (JObject [(''action'', JString ''Read'')]) PermissionAttributes"
  using PermissionAttributes_action [of schemas_only "JObject [(''action'', JString ''read'')]"]
    PermissionAttributes_action [of schemas_only "JObject []"]
    PermissionAttributes_action [of schemas_only "JObject [(''action'', JString ''execute'')]"]
    PermissionAttributes_action [of schemas_only "JObject [(''action'', JString ''Read'')]"]
  by (simp add: get_prop_def)

lemma infer_instantiation:
  "extends_string R \<Longrightarrow>
   infer_PermissionRuleDefinition (PermissionRuleDefinition R P) = Some (R, P)"
  by (simp add: PermissionRuleDefinition_def required_member_def ZodSchema_def)

text \<open>
  C6. For a rule type PermissionRuleDefinition<R, P> (with R a string type), Condition
  is the nullary function type () => PermissionCondition<R, P> when undefined belongs
  to P, and the function type (params: P) => PermissionCondition<R, P> with one required
  parameter when it does not.
\<close>

theorem Condition_arity:
  assumes "extends_string R"
  shows "(has_type ext JUndefined P \<longrightarrow>
            Condition ext (PermissionRuleDefinition R P) = TFun [] (PermissionCondition R P))
       \<and> (\<not> has_type ext JUndefined P \<longrightarrow>
            Condition ext (PermissionRuleDefinition R P) =
              TFun [(''params'', P)] (PermissionCondition R P))"
  using assms by (simp add: Condition_def infer_instantiation)

theorem Condition_arity_witness:
  "extends_string (TLit ''catalog-entity'')
   \<and> has_type schemas_only JUndefined (TUnion [TUndefined, TExt ''JsonObject'' []])
   \<and> Condition schemas_only
        (PermissionRuleDefinition (TLit ''catalog-entity'')
           (TUnion [TUndefined, TExt ''JsonObject'' []])) =
      TFun [] (PermissionCondition (TLit ''catalog-entity'')
                 (TUnion [TUndefined, TExt ''JsonObject'' []]))
   \<and> \<not> has_type schemas_only JUndefined (TObject [(''claims'', Required, TString)])
   \<and> Condition schemas_only
        (PermissionRuleDefinition (TLit ''catalog-entity'')
           (TObject [(''claims'', Required, TString)])) =
      TFun [(''params'', TObject [(''claims'', Required, TString)])]
        (PermissionCondition (TLit ''catalog-entity'')
           (TObject [(''claims'', Required, TString)]))"
proof -
  have h: "extends_string (TLit ''catalog-entity'')"
    by simp
  have u: "has_type schemas_only JUndefined (TUnion [TUndefined, TExt ''JsonObject'' []])"
    by simp
  have n: "\<not> has_type schemas_only JUndefined (TObject [(''claims'', Required, TString)])"
    by simp
  from Condition_arity [OF h, of schemas_only "TUnion [TUndefined, TExt ''JsonObject'' []]"]
       Condition_arity [OF h, of schemas_only "TObject [(''claims'', Required, TString)]"]
       h u n
  show ?thesis by blast
qed

section \<open>Properties of componentsApiRef\<close>

text \<open>
  C4. componentsApiRef is the result of createApiRef, whatever that function is, applied
  to one configuration object, and the id of that object is the string
  'core.components'.
\<close>

theorem componentsApiRef_id:
  "componentsApiRef createApiRef = createApiRef (componentsApiRef (\<lambda>config. config))
   \<and> componentsApiRef (\<lambda>config. config) = [(''id'', JString ''core.components'')]
   \<and> get_prop (componentsApiRef (\<lambda>config. config)) ''id'' = JString ''core.components''"
  by (simp add: componentsApiRef_def get_prop_def)

section \<open>Properties of PermissionAuthorizer\<close>

lemma authorize_length:
  "authorize backend requests options = Resolved decisions \<Longrightarrow>
   length decisions = length requests"
  by (induction requests arbitrary: decisions) (auto split: sum.splits promise.splits)

lemma authorize_nth:
  "authorize backend requests options = Resolved decisions \<Longrightarrow>
   i < length requests \<Longrightarrow> backend options (requests ! i) = Inr (decisions ! i)"
proof (induction requests arbitrary: decisions i)
  case Nil
  then show ?case by simp
next
  case (Cons r rs)
  then show ?case by (cases i) (auto split: sum.splits promise.splits)
qed

text \<open>The call resolves when the backend answers every request, and is rejected otherwise.\<close>

lemma authorize_resolves:
  "(\<forall>r \<in> set requests. \<exists>d. backend options r = Inr d) \<Longrightarrow>
   \<exists>ds. authorize backend requests options = Resolved ds"
  by (induction requests) (auto split: sum.splits promise.splits)

lemma authorize_rejects:
  "r \<in> set requests \<Longrightarrow> backend options r = Inl e \<Longrightarrow>
   \<exists>e'. authorize backend requests options = Rejected e'"
  by (induction requests) (auto split: sum.splits promise.splits)

text \<open>
  C2. When authorize resolves, the array of decisions is as long as the array of
  requests, and for every index i the decision at i is the backend's decision for the
  request at i.
\<close>

theorem authorize_position_aligned:
  assumes "authorize backend requests options = Resolved decisions"
  shows "length decisions = length requests
       \<and> (\<forall>i < length requests. backend options (requests ! i) = Inr (decisions ! i))"
  using authorize_length [OF assms] authorize_nth [OF assms] by blast

theorem authorize_position_aligned_witness:
  "authorize stub_backend [''req1'', ''req2''] JUndefined =
     Resolved [''decision for req1'', ''decision for req2'']
   \<and> length [''decision for req1'', ''decision for req2''] = length [''req1'', ''req2'']
   \<and> stub_backend JUndefined ([''req1'', ''req2''] ! 0) =
       Inr ([''decision for req1'', ''decision for req2''] ! 0)
   \<and> stub_backend JUndefined ([''req1'', ''req2''] ! 1) =
       Inr ([''decision for req1'', ''decision for req2''] ! 1)"
proof -
  have h: "authorize stub_backend [''req1'', ''req2''] JUndefined =
             Resolved [''decision for req1'', ''decision for req2'']"
    by (simp add: stub_backend_def)
  from authorize_position_aligned [OF h] h
  show ?thesis by (simp add: stub_backend_def)
qed

end
